theory Spec2Isabelle
  imports Main "HOL-Library.Word"
begin

section \<open>JavaScript values\<close>

text \<open>
  A JavaScript string is a sequence of 16-bit code units; a \<open>Uint8Array\<close> is a sequence of
  bytes. String literals of the source are written with \<open>js\<close>.
\<close>

type_synonym byte = "8 word"
type_synonym jsstring = "16 word list"

definition js :: "string \<Rightarrow> jsstring" where
  "js s = map (\<lambda>c. of_nat (of_char c)) s"

text \<open>
  The exceptions that travel through the code. \<open>Error m\<close> is \<open>new Error(m)\<close>; a
  \<open>ZodError\<close> carries the paths of the rejected fields, in schema order; an
  \<open>HTTPException\<close> its status and message; Prisma's known request error its code and
  message; a \<open>DOMException\<close> its name; \<open>SyntaxError\<close> is what \<open>c.req.json()\<close> rejects
  with on a body that is not JSON.
\<close>

datatype exn =
    Error jsstring
  | ZodError "jsstring list list"
  | HTTPException nat jsstring
  | PrismaClientKnownRequestError jsstring jsstring
  | DOMException jsstring
  | SyntaxError

text \<open>
  \<open>error instanceof Error && error.message === s\<close>. Every class above extends \<open>Error\<close>.
  The message of a \<open>ZodError\<close> is the JSON rendering of its issues, that of a
  \<open>DOMException\<close> or \<open>SyntaxError\<close> is chosen by the platform: none of them is one of the
  fixed sentences the handlers compare with.
\<close>

fun hasMessage :: "exn \<Rightarrow> jsstring \<Rightarrow> bool" where
  "hasMessage (Error m) s = (m = s)"
| "hasMessage (HTTPException _ m) s = (m = s)"
| "hasMessage (PrismaClientKnownRequestError _ m) s = (m = s)"
| "hasMessage _ s = False"

section \<open>The platform's base64: \<open>btoa\<close> and \<open>atob\<close>\<close>

text \<open>
  \<open>btoa\<close> and \<open>atob\<close> are built into the runtime. They are modelled after the
  forgiving-base64 encode and decode of the WHATWG Infra standard, over the alphabet of
  RFC 4648: \<open>A\<close>-\<open>Z\<close>, \<open>a\<close>-\<open>z\<close>, \<open>0\<close>-\<open>9\<close>, \<open>+\<close>, \<open>/\<close>, with \<open>=\<close> (61) as padding.
\<close>

definition b64_char :: "nat \<Rightarrow> 16 word" where
  "b64_char i = of_nat
     (if i < 26 then 65 + i
      else if i < 52 then 71 + i
      else if i < 62 then i - 4
      else if i = 62 then 43
      else 47)"

definition b64_index :: "16 word \<Rightarrow> nat option" where
  "b64_index c =
     (let n = unat c in
      if 65 \<le> n \<and> n \<le> 90 then Some (n - 65)
      else if 97 \<le> n \<and> n \<le> 122 then Some (n - 71)
      else if 48 \<le> n \<and> n \<le> 57 then Some (n + 4)
      else if n = 43 then Some 62
      else if n = 47 then Some 63
      else None)"

text \<open>Three bytes become four sextets; a last group of one or two bytes is cut short.\<close>

fun sextets :: "nat list \<Rightarrow> nat list" where
  "sextets (a # b # c # r) =
     [a div 4, (a mod 4) * 16 + b div 16, (b mod 16) * 4 + c div 64, c mod 64] @ sextets r"
| "sextets [a, b] = [a div 4, (a mod 4) * 16 + b div 16, (b mod 16) * 4]"
| "sextets [a] = [a div 4, (a mod 4) * 16]"
| "sextets [] = []"

definition padding :: "nat \<Rightarrow> 16 word list" where
  "padding n = replicate ((3 - n mod 3) mod 3) 61"

definition InvalidCharacterError :: jsstring where
  "InvalidCharacterError = js ''InvalidCharacterError''"

text \<open>\<open>btoa\<close> throws on a code unit above 255, and encodes the code units as bytes otherwise.\<close>

definition btoa :: "jsstring \<Rightarrow> exn + jsstring" where
  "btoa s =
     (if \<exists>c \<in> set s. 255 < unat c then Inl (DOMException InvalidCharacterError)
      else Inr (map b64_char (sextets (map unat s)) @ padding (length s)))"

definition is_ascii_whitespace :: "16 word \<Rightarrow> bool" where
  "is_ascii_whitespace c = (c = 9 \<or> c = 10 \<or> c = 12 \<or> c = 13 \<or> c = 32)"

text \<open>
  When the length is a multiple of four, one or two \<open>=\<close> at the end are removed.
\<close>

definition strip_padding :: "16 word list \<Rightarrow> 16 word list" where
  "strip_padding d =
     (if length d mod 4 = 0 then
        (if 2 \<le> length d \<and> last d = 61 \<and> last (butlast d) = 61 then butlast (butlast d)
         else if 1 \<le> length d \<and> last d = 61 then butlast d
         else d)
      else d)"

text \<open>
  Four sextets become three bytes. Of a last group of three sextets the low two bits are
  dropped, of a last group of two the low four bits; a single last sextet gives nothing.
\<close>

fun unsextets :: "nat list \<Rightarrow> nat list" where
  "unsextets (w # x # y # z # r) =
     [w * 4 + x div 16, (x mod 16) * 16 + y div 4, (y mod 4) * 64 + z] @ unsextets r"
| "unsextets [w, x, y] = [w * 4 + x div 16, (x mod 16) * 16 + y div 4]"
| "unsextets [w, x] = [w * 4 + x div 16]"
| "unsextets [w] = []"
| "unsextets [] = []"

text \<open>
  \<open>atob\<close> removes ASCII whitespace, strips the padding, throws when the length that remains
  is 1 modulo 4 or when a code unit is outside the alphabet, and returns the decoded bytes
  as a string of code units below 256.
\<close>

definition atob :: "jsstring \<Rightarrow> exn + jsstring" where
  "atob data =
     (let d = strip_padding (filter (\<lambda>c. \<not> is_ascii_whitespace c) data) in
      if length d mod 4 = 1 then Inl (DOMException InvalidCharacterError)
      else (case those (map b64_index d) of
              None \<Rightarrow> Inl (DOMException InvalidCharacterError)
            | Some ix \<Rightarrow> Inr (map of_nat (unsextets ix))))"

section \<open>Typed arrays\<close>

text \<open>\<open>String.fromCharCode(...bytes)\<close>: one code unit for each byte.\<close>

definition String_fromCharCode :: "byte list \<Rightarrow> jsstring" where
  "String_fromCharCode bs = map ucast bs"

text \<open>
  \<open>Uint8Array.from(s, c => c.charCodeAt(0))\<close>: each code unit is stored modulo 256.
\<close>

definition Uint8Array_from :: "jsstring \<Rightarrow> byte list" where
  "Uint8Array_from s = map ucast s"

text \<open>
  \<open>%TypedArray%.prototype.every\<close> calls the callback on the elements in index order and
  returns \<open>false\<close> at the first element for which the callback returns \<open>false\<close>, without
  visiting the rest. \<open>every_from\<close> returns the result of \<open>every\<close> together with the
  number of calls of the callback it has made; \<open>k\<close> is the index of the head of the list.
\<close>

fun every_from :: "('a \<Rightarrow> nat \<Rightarrow> bool) \<Rightarrow> 'a list \<Rightarrow> nat \<Rightarrow> bool \<times> nat" where
  "every_from f [] k = (True, 0)"
| "every_from f (x # xs) k =
     (if f x k then (case every_from f xs (Suc k) of (r, n) \<Rightarrow> (r, Suc n))
      else (False, 1))"

section \<open>Password hashing (\<open>utils/password\<close>)\<close>

definition SALT_LENGTH :: nat where "SALT_LENGTH = 16"
definition ITERATIONS :: nat where "ITERATIONS = 100000"
definition HASH_LENGTH :: nat where "HASH_LENGTH = 32"

text \<open>
  The libraries the code calls are parameters of the model:
  \<^item> \<open>textEncode\<close> is \<open>new TextEncoder().encode\<close>;
  \<^item> \<open>importKey\<close> is \<open>crypto.subtle.importKey('raw', _, {name: 'PBKDF2'}, false, ['deriveBits'])\<close>;
  \<^item> \<open>deriveBits P key salt iterations bits\<close> is \<open>crypto.subtle.deriveBits\<close> for PBKDF2 with
    SHA-256;
  \<^item> \<open>jwtSign\<close> is \<open>sign\<close> of \<open>hono/jwt\<close>;
  \<^item> \<open>isEmail\<close> is the check of \<open>z.string().email()\<close>.
  A rejected promise of the WebCrypto functions is an \<open>Inl\<close>.
\<close>

record JWTPayload =
  jwt_userId :: nat
  jwt_email :: jsstring
  jwt_name :: jsstring
  jwt_role :: jsstring
  jwt_iat :: "int option"
  jwt_exp :: "int option"

record 'key platform =
  textEncode :: "jsstring \<Rightarrow> byte list"
  importKey :: "byte list \<Rightarrow> exn + 'key"
  deriveBits :: "'key \<Rightarrow> byte list \<Rightarrow> nat \<Rightarrow> nat \<Rightarrow> exn + byte list"
  jwtSign :: "JWTPayload \<Rightarrow> jsstring \<Rightarrow> jsstring"
  isEmail :: "jsstring \<Rightarrow> bool"

definition getPasswordKey :: "'key platform \<Rightarrow> jsstring \<Rightarrow> exn + 'key" where
  "getPasswordKey P password = importKey P (textEncode P password)"

text \<open>
  The comparison at the end of \<open>comparePassword\<close>: the length test, then \<open>every\<close> over the
  stored key. An index outside \<open>newHashArray\<close> reads \<open>undefined\<close>, which equals no byte.
  The second component is the number of element comparisons made.
\<close>

definition compareKeys :: "byte list \<Rightarrow> byte list \<Rightarrow> bool \<times> nat" where
  "compareKeys hash newHashArray =
     (if length hash \<noteq> length newHashArray then (False, 0)
      else every_from
             (\<lambda>value index. index < length newHashArray \<and> value = newHashArray ! index)
             hash 0)"

definition comparePassword :: "'key platform \<Rightarrow> jsstring \<Rightarrow> jsstring \<Rightarrow> bool" where
  "comparePassword P password storedHash =
     (case atob storedHash of
        Inl _ \<Rightarrow> False
      | Inr bin \<Rightarrow>
          let combined = Uint8Array_from bin;
              salt = take SALT_LENGTH combined;
              hash = drop SALT_LENGTH combined
          in (case getPasswordKey P password of
                Inl _ \<Rightarrow> False
              | Inr key \<Rightarrow>
                  (case deriveBits P key salt ITERATIONS (HASH_LENGTH * 8) of
                     Inl _ \<Rightarrow> False
                   | Inr newHashArray \<Rightarrow> fst (compareKeys hash newHashArray))))"

section \<open>The world outside the code\<close>

text \<open>
  What the code reads and writes outside itself: the table \<open>User\<close> of the database, with
  the counter of its \<open>AUTOINCREMENT\<close> key; the clock, as the sequence of the readings that
  \<open>Date.now()\<close> and \<open>new Date()\<close> will return, in milliseconds; and the random source, as
  the sequence of the bytes that \<open>crypto.getRandomValues\<close> will return.
\<close>

record User =
  user_id :: nat
  user_email :: jsstring
  user_name :: "jsstring option"
  user_password_hash :: jsstring
  user_role :: jsstring
  user_profile_completed :: bool
  user_created_at :: int
  user_updated_at :: int

record world =
  users :: "User list"
  seq :: nat
  clock :: "nat \<Rightarrow> int"
  entropy :: "nat \<Rightarrow> byte"

definition Date_now :: "world \<Rightarrow> int \<times> world" where
  "Date_now w = (clock w 0, w\<lparr>clock := \<lambda>i. clock w (Suc i)\<rparr>)"

definition getRandomValues :: "nat \<Rightarrow> world \<Rightarrow> byte list \<times> world" where
  "getRandomValues n w = (map (entropy w) [0..<n], w\<lparr>entropy := \<lambda>i. entropy w (n + i)\<rparr>)"

text \<open>
  \<open>hashPassword\<close>: \<open>combinedArray\<close> is the salt followed by the derived key. A rejection of
  the WebCrypto calls, or an exception of \<open>btoa\<close>, leaves the function as it is thrown.
\<close>

definition hashPassword ::
  "'key platform \<Rightarrow> jsstring \<Rightarrow> world \<Rightarrow> (exn + jsstring) \<times> world" where
  "hashPassword P password w =
     (case getRandomValues SALT_LENGTH w of
        (salt, w1) \<Rightarrow>
          (case getPasswordKey P password of
             Inl e \<Rightarrow> (Inl e, w1)
           | Inr key \<Rightarrow>
               (case deriveBits P key salt ITERATIONS (HASH_LENGTH * 8) of
                  Inl e \<Rightarrow> (Inl e, w1)
                | Inr hashArray \<Rightarrow>
                    let combinedArray = salt @ hashArray
                    in (btoa (String_fromCharCode combinedArray), w1))))"

section \<open>The user service (\<open>services/user-service\<close>)\<close>

record CreateUserInput =
  cu_email :: jsstring
  cu_passwordHash :: jsstring
  cu_name :: jsstring
  cu_role :: jsstring
  cu_profileCompleted :: "bool option"

text \<open>
  \<open>prisma.user.create\<close> on the table of the migration: \<open>id\<close> is the next value of the
  counter (the \<open>user_id\<close> of the data is not read), and the unique index \<open>User_email_key\<close> on \<open>email\<close>, which compares the text as
  it is, refuses a row whose \<open>email\<close> is in the table. Prisma reports that with the code
  \<open>P2002\<close>.
\<close>

definition P2002 :: exn where
  "P2002 = PrismaClientKnownRequestError (js ''P2002'')
             (js ''Unique constraint failed on the fields: (`email`)'')"

definition user_create :: "User \<Rightarrow> world \<Rightarrow> (exn + User) \<times> world" where
  "user_create data w =
     (if \<exists>u \<in> set (users w). user_email u = user_email data then (Inl P2002, w)
      else let row = data\<lparr>user_id := Suc (seq w)\<rparr>
           in (Inr row, w\<lparr>users := users w @ [row], seq := Suc (seq w)\<rparr>))"

definition createUser :: "CreateUserInput \<Rightarrow> world \<Rightarrow> (exn + User) \<times> world" where
  "createUser userData w =
     (let profileCompleted = (case cu_profileCompleted userData of None \<Rightarrow> False | Some b \<Rightarrow> b)
      in case Date_now w of
           (created, w1) \<Rightarrow>
             (case Date_now w1 of
                (updated, w2) \<Rightarrow>
                  user_create
                    \<lparr>user_id = 0,
                     user_email = cu_email userData,
                     user_name = Some (cu_name userData),
                     user_password_hash = cu_passwordHash userData,
                     user_role = cu_role userData,
                     user_profile_completed = profileCompleted,
                     user_created_at = created,
                     user_updated_at = updated\<rparr>
                    w2))"

text \<open>\<open>findUnique\<close> returns the row whose column equals the value, or \<open>null\<close>.\<close>

definition getUserByEmail :: "jsstring \<Rightarrow> world \<Rightarrow> User option" where
  "getUserByEmail email w = find (\<lambda>u. user_email u = email) (users w)"

definition getUserById :: "nat \<Rightarrow> world \<Rightarrow> User option" where
  "getUserById i w = find (\<lambda>u. user_id u = i) (users w)"

section \<open>The authentication service (\<open>services/auth-service\<close>)\<close>

record SignupInput =
  si_email :: jsstring
  si_password :: jsstring
  si_name :: jsstring
  si_role :: jsstring

record LoginInput =
  li_email :: jsstring
  li_password :: jsstring

record UserView =
  view_id :: nat
  view_email :: jsstring
  view_name :: jsstring
  view_role :: jsstring
  view_profileCompleted :: bool

record AuthResponse =
  accessToken :: jsstring
  expiresIn :: int
  user :: UserView

definition generateToken :: "'key platform \<Rightarrow> JWTPayload \<Rightarrow> jsstring \<Rightarrow> jsstring" where
  "generateToken P payload secret = jwtSign P payload secret"

text \<open>\<open>user.name || ''\<close>: \<open>null\<close> and the empty string are both falsy.\<close>

definition name_or_empty :: "jsstring option \<Rightarrow> jsstring" where
  "name_or_empty n = (case n of None \<Rightarrow> [] | Some s \<Rightarrow> if s = [] then [] else s)"

text \<open>
  The object literal \<open>payload\<close> of \<open>generateAuthResponse\<close>. Its fields \<open>iat\<close> and \<open>exp\<close>
  each call \<open>Date.now()\<close>: \<open>now1\<close> and \<open>now2\<close> are the two readings.
\<close>

definition tokenPayload :: "User \<Rightarrow> int \<Rightarrow> int \<Rightarrow> JWTPayload" where
  "tokenPayload u now1 now2 =
     \<lparr>jwt_userId = user_id u,
      jwt_email = user_email u,
      jwt_name = name_or_empty (user_name u),
      jwt_role = user_role u,
      jwt_iat = Some (now1 div 1000),
      jwt_exp = Some (now2 div 1000 + 24 * 60 * 60)\<rparr>"

definition generateAuthResponse ::
  "'key platform \<Rightarrow> jsstring \<Rightarrow> User \<Rightarrow> world \<Rightarrow> AuthResponse \<times> world" where
  "generateAuthResponse P jwtSecret u w =
     (case Date_now w of
        (now1, w1) \<Rightarrow>
          (case Date_now w1 of
             (now2, w2) \<Rightarrow>
               let payload = tokenPayload u now1 now2;
                   token = generateToken P payload jwtSecret
               in (\<lparr>accessToken = token,
                    expiresIn = 24 * 60 * 60,
                    user = \<lparr>view_id = user_id u,
                             view_email = user_email u,
                             view_name = name_or_empty (user_name u),
                             view_role = user_role u,
                             view_profileCompleted = user_profile_completed u\<rparr>\<rparr>,
                   w2)))"

text \<open>
  \<open>signup\<close> awaits the lookup, the hashing and the insert one after the other, and other
  requests run while it waits. \<open>others\<close> is what they do to the world between the lookup and
  the insert; it is the identity when the request runs alone.
\<close>

definition signup ::
  "'key platform \<Rightarrow> jsstring \<Rightarrow> SignupInput \<Rightarrow> (world \<Rightarrow> world) \<Rightarrow> world
   \<Rightarrow> (exn + AuthResponse) \<times> world" where
  "signup P jwtSecret input others w =
     (case getUserByEmail (si_email input) w of
        Some existingUser \<Rightarrow> (Inl (Error (js ''User already exists'')), w)
      | None \<Rightarrow>
          (case hashPassword P (si_password input) (others w) of
             (Inl e, w1) \<Rightarrow> (Inl e, w1)
           | (Inr passwordHash, w1) \<Rightarrow>
               (case createUser
                       \<lparr>cu_email = si_email input,
                        cu_passwordHash = passwordHash,
                        cu_name = si_name input,
                        cu_role = si_role input,
                        cu_profileCompleted = Some False\<rparr>
                       w1 of
                  (Inl e, w2) \<Rightarrow> (Inl e, w2)
                | (Inr u, w2) \<Rightarrow>
                    (case generateAuthResponse P jwtSecret u w2 of
                       (r, w3) \<Rightarrow> (Inr r, w3)))))"

definition login ::
  "'key platform \<Rightarrow> jsstring \<Rightarrow> LoginInput \<Rightarrow> world \<Rightarrow> (exn + AuthResponse) \<times> world" where
  "login P jwtSecret input w =
     (case getUserByEmail (li_email input) w of
        None \<Rightarrow> (Inl (Error (js ''Invalid email or password'')), w)
      | Some u \<Rightarrow>
          if \<not> comparePassword P (li_password input) (user_password_hash u)
          then (Inl (Error (js ''Invalid email or password'')), w)
          else (case generateAuthResponse P jwtSecret u w of
                  (r, w1) \<Rightarrow> (Inr r, w1)))"

section \<open>The routes (\<open>routes/auth\<close>)\<close>

text \<open>
  The body of a request after \<open>JSON.parse\<close>. The keys of an object are distinct, so the
  first binding of a key is its only one. The schemas look at strings only.
\<close>

datatype json =
    JNull
  | JBool bool
  | JNumber int
  | JString jsstring
  | JArray "json list"
  | JObject "(jsstring \<times> json) list"

definition string_field :: "(jsstring \<times> json) list \<Rightarrow> string \<Rightarrow> jsstring option" where
  "string_field kvs k = (case map_of kvs (js k) of Some (JString s) \<Rightarrow> Some s | _ \<Rightarrow> None)"

text \<open>
  \<open>signupSchema.parse\<close>: each field that is missing, is not a string or fails its check adds
  the issue of its path, in the order of the schema; the parse throws a \<open>ZodError\<close> when
  there is an issue and returns the four fields otherwise. A body that is not an object is
  one issue at the empty path.
\<close>

definition signupSchema_parse :: "'key platform \<Rightarrow> json \<Rightarrow> exn + SignupInput" where
  "signupSchema_parse P body =
     (case body of
        JObject kvs \<Rightarrow>
          let email = string_field kvs ''email'';
              password = string_field kvs ''password'';
              name = string_field kvs ''name'';
              role = string_field kvs ''role'';
              issues =
                (if (case email of Some e \<Rightarrow> isEmail P e | None \<Rightarrow> False)
                 then [] else [[js ''email'']]) @
                (if (case password of Some p \<Rightarrow> 6 \<le> length p | None \<Rightarrow> False)
                 then [] else [[js ''password'']]) @
                (if (case name of Some n \<Rightarrow> 1 \<le> length n | None \<Rightarrow> False)
                 then [] else [[js ''name'']]) @
                (if (case role of Some r \<Rightarrow> r = js ''farmer'' \<or> r = js ''consumer'' | None \<Rightarrow> False)
                 then [] else [[js ''role'']])
          in (case (email, password, name, role) of
                (Some e, Some p, Some n, Some r) \<Rightarrow>
                  if issues = []
                  then Inr \<lparr>si_email = e, si_password = p, si_name = n, si_role = r\<rparr>
                  else Inl (ZodError issues)
              | _ \<Rightarrow> Inl (ZodError issues))
      | _ \<Rightarrow> Inl (ZodError [[]]))"

definition loginSchema_parse :: "'key platform \<Rightarrow> json \<Rightarrow> exn + LoginInput" where
  "loginSchema_parse P body =
     (case body of
        JObject kvs \<Rightarrow>
          let email = string_field kvs ''email'';
              password = string_field kvs ''password'';
              issues =
                (if (case email of Some e \<Rightarrow> isEmail P e | None \<Rightarrow> False)
                 then [] else [[js ''email'']]) @
                (if password \<noteq> None then [] else [[js ''password'']])
          in (case (email, password) of
                (Some e, Some p) \<Rightarrow>
                  if issues = [] then Inr \<lparr>li_email = e, li_password = p\<rparr>
                  else Inl (ZodError issues)
              | _ \<Rightarrow> Inl (ZodError issues))
      | _ \<Rightarrow> Inl (ZodError [[]]))"

text \<open>
  A response is \<open>c.json(body, status)\<close>; the status is 200 when the code gives none.
\<close>

datatype resbody =
    Result AuthResponse
  | ErrorMessage jsstring
  | InvalidInput jsstring "jsstring list list"

datatype response = Json resbody nat

text \<open>The outer \<open>catch\<close> of both handlers.\<close>

fun route_catch :: "exn \<Rightarrow> response" where
  "route_catch (ZodError issues) = Json (InvalidInput (js ''Invalid input'') issues) 400"
| "route_catch (HTTPException status m) = Json (ErrorMessage m) status"
| "route_catch _ = Json (ErrorMessage (js ''An unknown error occurred'')) 500"

text \<open>
  \<open>auth.post('/sign-up')\<close>. \<open>req\<close> is the body of the request, \<open>None\<close> when it is not JSON.
  \<open>sign_up_try\<close> is the outer \<open>try\<close> block: \<open>Inl\<close> is what it throws.
\<close>

definition sign_up_try ::
  "'key platform \<Rightarrow> jsstring \<Rightarrow> json option \<Rightarrow> (world \<Rightarrow> world) \<Rightarrow> world
   \<Rightarrow> (exn + response) \<times> world" where
  "sign_up_try P JWT_SECRET req others w =
     (case req of
        None \<Rightarrow> (Inl SyntaxError, w)
      | Some body \<Rightarrow>
          (case signupSchema_parse P body of
             Inl e \<Rightarrow> (Inl e, w)
           | Inr input \<Rightarrow>
               (case signup P JWT_SECRET input others w of
                  (Inr result, w1) \<Rightarrow> (Inr (Json (Result result) 200), w1)
                | (Inl error, w1) \<Rightarrow>
                    if hasMessage error (js ''User already exists'')
                    then (Inr (Json (ErrorMessage (js ''User already exists'')) 409), w1)
                    else (Inl error, w1))))"

definition sign_up ::
  "'key platform \<Rightarrow> jsstring \<Rightarrow> json option \<Rightarrow> (world \<Rightarrow> world) \<Rightarrow> world
   \<Rightarrow> response \<times> world" where
  "sign_up P JWT_SECRET req others w =
     (case sign_up_try P JWT_SECRET req others w of
        (Inr r, w1) \<Rightarrow> (r, w1)
      | (Inl error, w1) \<Rightarrow> (route_catch error, w1))"

definition log_in_try ::
  "'key platform \<Rightarrow> jsstring \<Rightarrow> json option \<Rightarrow> world \<Rightarrow> (exn + response) \<times> world" where
  "log_in_try P JWT_SECRET req w =
     (case req of
        None \<Rightarrow> (Inl SyntaxError, w)
      | Some body \<Rightarrow>
          (case loginSchema_parse P body of
             Inl e \<Rightarrow> (Inl e, w)
           | Inr input \<Rightarrow>
               (case login P JWT_SECRET input w of
                  (Inr result, w1) \<Rightarrow> (Inr (Json (Result result) 200), w1)
                | (Inl error, w1) \<Rightarrow>
                    if hasMessage error (js ''Invalid email or password'')
                    then (Inr (Json (ErrorMessage (js ''Invalid email or password'')) 401), w1)
                    else (Inl error, w1))))"

definition log_in ::
  "'key platform \<Rightarrow> jsstring \<Rightarrow> json option \<Rightarrow> world \<Rightarrow> response \<times> world" where
  "log_in P JWT_SECRET req w =
     (case log_in_try P JWT_SECRET req w of
        (Inr r, w1) \<Rightarrow> (r, w1)
      | (Inl error, w1) \<Rightarrow> (route_catch error, w1))"

section \<open>Concrete instances\<close>

text \<open>
  A platform and worlds for the concrete instances. \<open>toy\<close> has functions of the right
  types in place of the libraries: its key derivation repeats one byte, the sum of the bytes
  of the password plus the length of the salt. \<open>world0\<close> is an empty table with a clock
  that starts at 999 ms and advances by one millisecond at each reading.
  \<open>stored_secret123\<close> is what \<open>hashPassword toy\<close> returns for the password \<open>secret123\<close>
  in \<open>world0\<close>. \<open>world1\<close>, \<open>world2\<close> and \<open>world3\<close> are \<open>world0\<close> with one row: \<open>alice\<close>,
  \<open>alice\<close> without a name, and \<open>alice\<close> with a hash that is not base64.
  \<open>concurrent_signup\<close> is another request that inserts a row for \<open>a@x.com\<close>.
\<close>

definition toy :: "byte list platform" where
  "toy =
     \<lparr>textEncode = map ucast,
      importKey = Inr,
      deriveBits = (\<lambda>key salt iterations bits.
                     Inr (replicate (bits div 8) (sum_list key + of_nat (length salt)))),
      jwtSign = (\<lambda>payload secret. jwt_email payload @ secret),
      isEmail = (\<lambda>s. 64 \<in> set s)\<rparr>"

definition world0 :: world where
  "world0 = \<lparr>users = [], seq = 0, clock = (\<lambda>i. 999 + int i), entropy = (\<lambda>i. of_nat i)\<rparr>"

definition stored_secret123 :: jsstring where
  "stored_secret123 = js ''AAECAwQFBgcICQoLDA0ODywsLCwsLCwsLCwsLCwsLCwsLCwsLCwsLCwsLCwsLCws''"

definition alice :: User where
  "alice =
     \<lparr>user_id = 1,
      user_email = js ''a@x.com'',
      user_name = Some (js ''Alice''),
      user_password_hash = stored_secret123,
      user_role = js ''farmer'',
      user_profile_completed = False,
      user_created_at = 0,
      user_updated_at = 0\<rparr>"

definition world1 :: world where
  "world1 = world0\<lparr>users := [alice], seq := 1\<rparr>"

definition signup_body :: "string \<Rightarrow> string \<Rightarrow> json" where
  "signup_body email role =
     JObject
       [(js ''email'', JString (js email)),
        (js ''password'', JString (js ''secret123'')),
        (js ''name'', JString (js ''Alice'')),
        (js ''role'', JString (js role))]"

definition signup_input :: "string \<Rightarrow> string \<Rightarrow> SignupInput" where
  "signup_input email role =
     \<lparr>si_email = js email, si_password = js ''secret123'', si_name = js ''Alice'',
      si_role = js role\<rparr>"

definition concurrent_signup :: "world \<Rightarrow> world" where
  "concurrent_signup w =
     snd (createUser
            \<lparr>cu_email = js ''a@x.com'',
             cu_passwordHash = stored_secret123,
             cu_name = js ''Alice'',
             cu_role = js ''farmer'',
             cu_profileCompleted = Some False\<rparr>
            w)"



definition corrupt :: User where
  "corrupt = alice\<lparr>user_password_hash := js ''!''\<rparr>"

definition world3 :: world where
  "world3 = world0\<lparr>users := [corrupt], seq := 1\<rparr>"

section \<open>Base64: decoding what was encoded\<close>

lemma b64_index_char: "i < 64 \<Longrightarrow> b64_index (b64_char i) = Some i"
  by (auto simp: b64_index_def b64_char_def unat_of_nat Let_def)

lemma b64_char_not_pad: "i < 64 \<Longrightarrow> b64_char i \<noteq> 61"
  using b64_index_char[of i] by (auto simp: b64_index_def)

lemma b64_char_not_ws: "i < 64 \<Longrightarrow> \<not> is_ascii_whitespace (b64_char i)"
  using b64_index_char[of i] by (auto simp: b64_index_def is_ascii_whitespace_def)

lemma sextets_bound: "\<forall>n \<in> set ns. n < 256 \<Longrightarrow> \<forall>i \<in> set (sextets ns). i < 64"
  by (induction ns rule: sextets.induct) auto

lemma length_sextets_mod:
  "length (sextets ns) mod 4 = (if length ns mod 3 = 0 then 0 else length ns mod 3 + 1)"
  by (induction ns rule: sextets.induct) auto

lemma unsextets_sextets: "\<forall>n \<in> set ns. n < 256 \<Longrightarrow> unsextets (sextets ns) = ns"
  by (induction ns rule: sextets.induct) auto

lemma those_index: "\<forall>i \<in> set ix. i < 64 \<Longrightarrow> those (map b64_index (map b64_char ix)) = Some ix"
  by (induction ix) (auto simp: b64_index_char)

lemma filter_ws_encoded:
  assumes "\<forall>i \<in> set ix. i < 64"
  shows "filter (\<lambda>c. \<not> is_ascii_whitespace c) (map b64_char ix @ padding n) = map b64_char ix @ padding n"
proof -
  have 1: "\<forall>c \<in> set (map b64_char ix). \<not> is_ascii_whitespace c"
    using assms by (auto simp: b64_char_not_ws)
  have 2: "\<forall>c \<in> set (padding n). \<not> is_ascii_whitespace c"
    by (auto simp: padding_def is_ascii_whitespace_def)
  show ?thesis using 1 2 by (simp only: filter_append filter_True)
qed

lemma padding_cases:
  "padding n = (if n mod 3 = 0 then [] else if n mod 3 = 1 then [61, 61] else [61])"
proof -
  have "n mod 3 = 0 \<or> n mod 3 = 1 \<or> n mod 3 = 2" by arith
  then show ?thesis by (auto simp: padding_def numeral_2_eq_2)
qed

lemma last_body:
  assumes "\<forall>i \<in> set ix. i < 64" "ix \<noteq> []"
  shows "last (map b64_char ix) \<noteq> 61"
proof -
  have "last ix \<in> set ix" using assms(2) by simp
  then have "last ix < 64" using assms(1) by blast
  then show ?thesis using assms(2) by (simp add: last_map b64_char_not_pad)
qed

lemma strip_padding_encoded:
  assumes b: "\<forall>n \<in> set ns. n < 256"
  shows "strip_padding (map b64_char (sextets ns) @ padding (length ns)) = map b64_char (sextets ns)"
proof -
  let ?ix = "sextets ns"
  let ?body = "map b64_char ?ix"
  have ix: "\<forall>i \<in> set ?ix. i < 64" using b by (rule sextets_bound)
  have m: "length ?ix mod 4 = (if length ns mod 3 = 0 then 0 else length ns mod 3 + 1)"
    by (rule length_sextets_mod)
  consider (z) "length ns mod 3 = 0" | (o) "length ns mod 3 = 1" | (t) "length ns mod 3 = 2"
    by arith
  then show ?thesis
  proof cases
    case z
    then have l: "length ?body mod 4 = 0" using m by simp
    show ?thesis
    proof (cases "?ix = []")
      case True
      then show ?thesis using z by (simp add: strip_padding_def padding_cases)
    next
      case False
      then have "last ?body \<noteq> 61" using ix by (rule last_body[rotated])
      then show ?thesis using z l by (simp add: strip_padding_def padding_cases)
    qed
  next
    case o
    then have l: "length ?body mod 4 = 2" using m by simp
    have p: "padding (length ns) = [61, 61]" using o by (simp add: padding_cases)
    have e: "?body @ [61, 61] = (?body @ [61]) @ [61]" by simp
    have "\<And>k::nat. k mod 4 = 2 \<Longrightarrow> (k + 2) mod 4 = 0" by presburger
    then have "(length ?body + 2) mod 4 = 0" using l by blast
    then show ?thesis
      unfolding p strip_padding_def e by (simp del: append_assoc)
  next
    case t
    then have l: "length ?body mod 4 = 3" using m by simp
    then have ne: "?ix \<noteq> []" by auto
    have nl: "last ?body \<noteq> 61" using ix ne by (rule last_body)
    have p: "padding (length ns) = [61]" using t by (simp add: padding_cases)
    have "\<And>k::nat. k mod 4 = 3 \<Longrightarrow> (k + 1) mod 4 = 0" by presburger
    then have "(length ?body + 1) mod 4 = 0" using l by blast
    then show ?thesis using nl ne
      unfolding p strip_padding_def by (simp add: butlast_append)
  qed
qed

lemma atob_encoded:
  assumes b: "\<forall>n \<in> set ns. n < 256"
  shows "atob (map b64_char (sextets ns) @ padding (length ns)) = Inr (map of_nat ns)"
proof -
  have ix: "\<forall>i \<in> set (sextets ns). i < 64" using b by (rule sextets_bound)
  have m: "length (map b64_char (sextets ns)) mod 4 \<noteq> 1"
    using length_sextets_mod[of ns] by (auto split: if_splits)
  show ?thesis
    unfolding atob_def filter_ws_encoded[OF ix] strip_padding_encoded[OF b] Let_def
    using m by (simp add: those_index[OF ix] unsextets_sextets[OF b] del: map_map)
qed

lemma atob_btoa:
  assumes "\<forall>c \<in> set s. unat c \<le> 255"
  shows "\<exists>e. btoa s = Inr e \<and> atob e = Inr s"
proof -
  have b: "\<forall>n \<in> set (map unat s). n < 256" using assms by auto
  have "map of_nat (map unat s) = s" by (simp add: map_idI)
  then show ?thesis
    using atob_encoded[OF b] assms by (auto simp: btoa_def not_less)
qed

lemma ucast_byte_back: "(ucast (ucast (b :: 8 word) :: 16 word) :: 8 word) = b"
  by (rule ucast_up_ucast_id) (simp add: is_up)

lemma unat_ucast_byte: "unat (ucast (b :: 8 word) :: 16 word) = unat b"
proof -
  have "unat b < 2 ^ 8" using unsigned_less[of b] by simp
  then have "unat b < 2 ^ 16" by simp
  then show ?thesis by (simp add: unsigned_ucast_eq take_bit_nat_eq_self)
qed

lemma bytes_string_bytes: "Uint8Array_from (String_fromCharCode bs) = bs"
  by (simp add: Uint8Array_from_def String_fromCharCode_def map_idI ucast_byte_back)

lemma fromCharCode_small: "\<forall>c \<in> set (String_fromCharCode bs). unat c \<le> 255"
proof
  fix c assume "c \<in> set (String_fromCharCode bs)"
  then obtain b :: byte where "c = ucast b" unfolding String_fromCharCode_def by auto
  moreover have "unat b < 256" using unsigned_less[of b] by simp
  ultimately show "unat c \<le> 255" by (simp add: unat_ucast_byte)
qed

section \<open>The comparison of the keys\<close>

lemma every_from_keys:
  "length xs = length ys \<Longrightarrow>
   every_from (\<lambda>value index. index < length (pre @ ys) \<and> value = (pre @ ys) ! index)
     xs (length pre)
   = (xs = ys, if xs = ys then length xs
               else Suc (length (takeWhile (\<lambda>(a, b). a = b) (zip xs ys))))"
proof (induction xs ys arbitrary: pre rule: list_induct2)
  case Nil
  then show ?case by simp
next
  case (Cons x xs y ys)
  have "every_from
          (\<lambda>value index. index < length ((pre @ [y]) @ ys) \<and> value = ((pre @ [y]) @ ys) ! index)
          xs (length (pre @ [y]))
        = (xs = ys, if xs = ys then length xs
                    else Suc (length (takeWhile (\<lambda>(a, b). a = b) (zip xs ys))))"
    by (rule Cons.IH)
  then show ?case by (simp add: nth_append)
qed

lemma compareKeys_eq:
  "compareKeys h k =
     (if length h \<noteq> length k then (False, 0)
      else (h = k, if h = k then length h
                   else Suc (length (takeWhile (\<lambda>(a, b). a = b) (zip h k)))))"
  using every_from_keys[of h k "[]"] by (simp add: compareKeys_def)

lemma fst_compareKeys: "fst (compareKeys h k) \<longleftrightarrow> h = k"
  by (auto simp: compareKeys_eq)

lemma comparePassword_eq:
  assumes "atob h = Inr bin" and "getPasswordKey P p = Inr key"
    and "deriveBits P key (take SALT_LENGTH (Uint8Array_from bin)) ITERATIONS (HASH_LENGTH * 8)
         = Inr dk"
  shows "comparePassword P p h \<longleftrightarrow> drop SALT_LENGTH (Uint8Array_from bin) = dk"
  using assms by (simp add: comparePassword_def fst_compareKeys)

section \<open>Hashing\<close>

lemma length_getRandomValues: "length (fst (getRandomValues n w)) = n"
  by (simp add: getRandomValues_def)

lemma hashPassword_returns:
  assumes k: "getPasswordKey P p = Inr key"
    and d: "deriveBits P key (fst (getRandomValues SALT_LENGTH w)) ITERATIONS (HASH_LENGTH * 8)
            = Inr dk"
  shows "\<exists>h. hashPassword P p w = (Inr h, snd (getRandomValues SALT_LENGTH w))
            \<and> atob h = Inr (String_fromCharCode (fst (getRandomValues SALT_LENGTH w) @ dk))"
proof -
  obtain salt w1 where g: "getRandomValues SALT_LENGTH w = (salt, w1)"
    by (cases "getRandomValues SALT_LENGTH w")
  obtain e where e: "btoa (String_fromCharCode (salt @ dk)) = Inr e"
      "atob e = Inr (String_fromCharCode (salt @ dk))"
    using atob_btoa[OF fromCharCode_small] by blast
  show ?thesis using k d g e by (simp add: hashPassword_def)
qed

section \<open>The table of users\<close>

lemma getUserByEmail_None: "getUserByEmail e w = None \<longleftrightarrow> (\<forall>u \<in> set (users w). user_email u \<noteq> e)"
  by (auto simp: getUserByEmail_def find_None_iff)

lemma getUserByEmail_present:
  "u \<in> set (users w) \<Longrightarrow> \<exists>v. getUserByEmail (user_email u) w = Some v"
  by (cases "getUserByEmail (user_email u) w") (auto simp: getUserByEmail_None)




lemma createUser_taken:
  assumes "v \<in> set (users w)" "user_email v = cu_email d"
  shows "fst (createUser d w) = Inl P2002"
  using assms
  by (auto simp: createUser_def user_create_def Date_now_def Let_def)


lemma signup_duplicate:
  assumes "u \<in> set (users w)" and "user_email u = si_email input"
  shows "signup P s input others w = (Inl (Error (js ''User already exists'')), w)"
proof -
  obtain v where v: "getUserByEmail (si_email input) w = Some v"
    using getUserByEmail_present[OF assms(1)] assms(2) by auto
  then show ?thesis by (simp add: signup_def)
qed








section \<open>Facts about the concrete instances\<close>

lemma toy_key: "getPasswordKey toy p = Inr (map ucast p)"
  by (simp add: getPasswordKey_def toy_def)

lemma toy_bits: "deriveBits toy key salt ITERATIONS (HASH_LENGTH * 8)
                 = Inr (replicate 32 (sum_list key + of_nat (length salt)))"
  by (simp add: toy_def HASH_LENGTH_def)

lemma toy_isEmail: "isEmail toy (js ''a@x.com'')"
  by (simp add: toy_def js_def)

lemma atob_bad: "atob (js ''!'') = Inl (DOMException InvalidCharacterError)"
  by code_simp

lemma atob_ABC: "atob (js ''QUJD'') = Inr (js ''ABC'')"
  by code_simp

lemma atob_long: "atob (js ''AAECAwQFBgcICQoLDA0ODywsLCwsLCwsLCwsLCwsLCwsLCwsLCwsLCwsLCwsLCws'') = Inr (map of_nat ([0..<16] @ replicate 32 44))"
  by code_simp

lemma atob_stored:
  "atob stored_secret123 = Inr (map of_nat ([0..<16] @ replicate 32 44))"
  unfolding stored_secret123_def by (rule atob_long)

lemma stored_salt:
  "length (take SALT_LENGTH (Uint8Array_from (map of_nat ([0..<16] @ replicate 32 44)))) = 16"
  by (simp add: SALT_LENGTH_def Uint8Array_from_def)

lemma stored_key:
  "drop SALT_LENGTH (Uint8Array_from (map of_nat ([0..<16] @ replicate 32 44))) = replicate 32 44"
  by (simp add: SALT_LENGTH_def Uint8Array_from_def)

lemma toy_bits_stored:
  "deriveBits toy (map ucast p)
     (take SALT_LENGTH (Uint8Array_from (map of_nat ([0..<16] @ replicate 32 44))))
     ITERATIONS (HASH_LENGTH * 8)
   = Inr (replicate 32 (sum_list (map ucast p) + 16))"
  unfolding toy_bits stored_salt by simp


lemma compare_wrong: "\<not> comparePassword toy (js ''wrongpass'') stored_secret123"
  unfolding comparePassword_eq[OF atob_stored toy_key toy_bits_stored] stored_key
  by (simp add: js_def)

lemma signup_body_fields:
  "string_field [(js ''email'', JString (js em)), (js ''password'', JString (js ''secret123'')),
                 (js ''name'', JString (js ''Alice'')), (js ''role'', JString (js ro))] ''email''
     = Some (js em)"
  "string_field [(js ''email'', JString (js em)), (js ''password'', JString (js ''secret123'')),
                 (js ''name'', JString (js ''Alice'')), (js ''role'', JString (js ro))] ''password''
     = Some (js ''secret123'')"
  "string_field [(js ''email'', JString (js em)), (js ''password'', JString (js ''secret123'')),
                 (js ''name'', JString (js ''Alice'')), (js ''role'', JString (js ro))] ''name''
     = Some (js ''Alice'')"
  "string_field [(js ''email'', JString (js em)), (js ''password'', JString (js ''secret123'')),
                 (js ''name'', JString (js ''Alice'')), (js ''role'', JString (js ro))] ''role''
     = Some (js ro)"
  by (simp_all add: string_field_def js_def)

lemma signup_input_parse:
  "signupSchema_parse toy (signup_body ''a@x.com'' ''farmer'') = Inr (signup_input ''a@x.com'' ''farmer'')"
  by (simp add: signupSchema_parse_def signup_body_def signup_input_def string_field_def js_def toy_def)

lemma world0_lookup: "getUserByEmail e world0 = None"
  by (simp add: getUserByEmail_def world0_def)

lemma world1_lookup:
  "getUserByEmail (js ''a@x.com'') world1 = Some alice"
  "getUserByEmail (js ''b@x.com'') world1 = None"
  by (simp_all add: getUserByEmail_def world1_def world0_def alice_def js_def)

lemma concurrent_row:
  "users (concurrent_signup world0) = [alice\<lparr>user_created_at := 999, user_updated_at := 1000\<rparr>]"
  by (simp add: concurrent_signup_def createUser_def user_create_def Date_now_def world0_def
        alice_def Let_def)


section \<open>The claims\<close>

subsection \<open>C1: the comparison of the keys\<close>

text \<open>
  C1, as the code has it. \<open>comparePassword\<close> compares the stored key with the derived key
  element by element in index order and stops at the first element that differs: the result
  is true exactly when the two keys are equal, and the number of comparisons is none when the
  lengths differ, the length when the keys are equal, and the index of the first difference
  plus one otherwise. When the stored hash decodes and the platform derives a key, the
  result of \<open>comparePassword\<close> is the result of this comparison.
\<close>

theorem compareKeys_stops_at_first_difference:
  "(fst (compareKeys h k) \<longleftrightarrow> h = k) \<and>
   snd (compareKeys h k) =
     (if length h \<noteq> length k then 0
      else if h = k then length h
      else Suc (length (takeWhile (\<lambda>(a, b). a = b) (zip h k)))) \<and>
   (atob s = Inr bin \<and> getPasswordKey P p = Inr key \<and>
    deriveBits P key (take SALT_LENGTH (Uint8Array_from bin)) ITERATIONS (HASH_LENGTH * 8) = Inr dk
    \<longrightarrow> comparePassword P p s = fst (compareKeys (drop SALT_LENGTH (Uint8Array_from bin)) dk))"
  by (auto simp add: compareKeys_eq comparePassword_def)

theorem compareKeys_stops_at_first_difference_witness:
  "comparePassword toy (js ''wrongpass'') stored_secret123
     = fst (compareKeys (replicate 32 44) (replicate 32 244)) \<and>
   \<not> fst (compareKeys (replicate 32 44) (replicate 32 244)) \<and>
   snd (compareKeys (replicate 32 44) (replicate 32 244)) = 1"
proof -
  have d: "deriveBits toy (map ucast (js ''wrongpass''))
             (take SALT_LENGTH (Uint8Array_from (map of_nat ([0..<16] @ replicate 32 44))))
             ITERATIONS (HASH_LENGTH * 8) = Inr (replicate 32 244)"
    unfolding toy_bits_stored by (simp add: js_def)
  note t = compareKeys_stops_at_first_difference
             [where h = "replicate 32 44" and k = "replicate 32 244" and s = stored_secret123
                and bin = "map of_nat ([0..<16] @ replicate 32 44)" and P = toy
                and p = "js ''wrongpass''" and key = "map ucast (js ''wrongpass'')"
                and dk = "replicate 32 244"]
  have 1: "comparePassword toy (js ''wrongpass'') stored_secret123
             = fst (compareKeys (replicate 32 44) (replicate 32 244))"
    using t atob_stored toy_key d unfolding stored_key by blast
  have 2: "\<not> fst (compareKeys (replicate 32 44) (replicate 32 244))"
    using t by simp
  have 3: "snd (compareKeys (replicate 32 44) (replicate 32 244)) = 1"
    using t by simp
  show ?thesis using 1 2 3 by blast
qed

text \<open>
  The number of comparisons depends on where the keys first differ: against a derived key of
  32 zero bytes, a stored key that differs in the first byte costs one comparison and one
  that differs in the last byte costs 32.
\<close>

theorem compareKeys_first_difference_counterexample:
  "snd (compareKeys (1 # replicate 31 0) (replicate 32 0)) = 1 \<and>
   snd (compareKeys (replicate 31 0 @ [1]) (replicate 32 0)) = 32"
  by code_simp

subsection \<open>C2: hash, then verify\<close>

text \<open>
  C2. Whatever salt the random source gives, when the platform imports the password as a key
  and derives the bits, \<open>hashPassword\<close> returns an encoded hash, and \<open>comparePassword\<close> of
  the same password with that hash is true.
\<close>

theorem hash_then_verify:
  assumes k: "getPasswordKey P p = Inr key"
    and d: "deriveBits P key (fst (getRandomValues SALT_LENGTH w)) ITERATIONS (HASH_LENGTH * 8)
            = Inr dk"
  shows "\<exists>h w'. hashPassword P p w = (Inr h, w') \<and> comparePassword P p h"
proof -
  let ?salt = "fst (getRandomValues SALT_LENGTH w)"
  obtain h where h: "hashPassword P p w = (Inr h, snd (getRandomValues SALT_LENGTH w))"
    and a: "atob h = Inr (String_fromCharCode (?salt @ dk))"
    using hashPassword_returns[OF k d] by blast
  have l: "length ?salt = SALT_LENGTH" by (rule length_getRandomValues)
  have "comparePassword P p h"
    unfolding comparePassword_def a using k d l
    by (simp add: bytes_string_bytes fst_compareKeys)
  with h show ?thesis by blast
qed

theorem hash_then_verify_witness:
  "\<exists>h w'. hashPassword toy (js ''secret123'') world0 = (Inr h, w')
          \<and> comparePassword toy (js ''secret123'') h"
  by (rule hash_then_verify[where key = "map ucast (js ''secret123'')"
        and dk = "replicate 32 44"])
     (simp_all add: toy_def getPasswordKey_def getRandomValues_def SALT_LENGTH_def
        HASH_LENGTH_def js_def)

subsection \<open>C3: the roles\<close>

text \<open>
  C3, as the code has it. The roles are \<open>farmer\<close> and \<open>consumer\<close>. For a body whose email,
  password and name pass their checks, \<open>signupSchema.parse\<close> returns the input exactly when
  the role is the string \<open>farmer\<close> or the string \<open>consumer\<close>; the role of a parsed input is
  one of the two; and with any other role the handler answers 400 with the issue at \<open>role\<close>
  and leaves the world as it was.
\<close>

theorem signup_role_farmer_or_consumer:
  assumes e: "string_field kvs ''email'' = Some e" "isEmail P e"
    and p: "string_field kvs ''password'' = Some p" "6 \<le> length p"
    and n: "string_field kvs ''name'' = Some n" "1 \<le> length n"
  shows "((\<exists>input. signupSchema_parse P (JObject kvs) = Inr input) \<longleftrightarrow>
            string_field kvs ''role'' = Some (js ''farmer'') \<or>
            string_field kvs ''role'' = Some (js ''consumer'')) \<and>
         (signupSchema_parse P (JObject kvs) = Inr input \<longrightarrow>
            si_role input = js ''farmer'' \<or> si_role input = js ''consumer'') \<and>
         (string_field kvs ''role'' \<noteq> Some (js ''farmer'') \<and>
          string_field kvs ''role'' \<noteq> Some (js ''consumer'') \<longrightarrow>
            sign_up P s (Some (JObject kvs)) others w =
              (Json (InvalidInput (js ''Invalid input'') [[js ''role'']]) 400, w))"
proof (intro conjI impI)
  show "(\<exists>input. signupSchema_parse P (JObject kvs) = Inr input) \<longleftrightarrow>
          string_field kvs ''role'' = Some (js ''farmer'') \<or>
          string_field kvs ''role'' = Some (js ''consumer'')"
    using e p n by (auto simp: signupSchema_parse_def Let_def split: option.splits)
  show "si_role input = js ''farmer'' \<or> si_role input = js ''consumer''"
    if "signupSchema_parse P (JObject kvs) = Inr input"
    using that e p n
    by (auto simp: signupSchema_parse_def Let_def split: option.splits if_splits)
  show "sign_up P s (Some (JObject kvs)) others w =
          (Json (InvalidInput (js ''Invalid input'') [[js ''role'']]) 400, w)"
    if r: "string_field kvs ''role'' \<noteq> Some (js ''farmer'') \<and>
           string_field kvs ''role'' \<noteq> Some (js ''consumer'')"
  proof -
    have "signupSchema_parse P (JObject kvs) = Inl (ZodError [[js ''role'']])"
      using r e p n by (auto simp: signupSchema_parse_def Let_def split: option.splits)
    then show ?thesis by (simp add: sign_up_def sign_up_try_def)
  qed
qed

theorem signup_role_farmer_or_consumer_witness:
  "(\<exists>input. signupSchema_parse toy (signup_body ''a@x.com'' ''consumer'') = Inr input) \<and>
   sign_up toy (js ''k'') (Some (signup_body ''a@x.com'' ''producer'')) id world0
     = (Json (InvalidInput (js ''Invalid input'') [[js ''role'']]) 400, world0)"
proof -
  have p: "6 \<le> length (js ''secret123'')" and n: "1 \<le> length (js ''Alice'')"
    by (simp_all add: js_def)
  note f = signup_body_fields[of "''a@x.com''" "''consumer''"]
  note g = signup_body_fields[of "''a@x.com''" "''producer''"]
  have 1: "\<exists>input. signupSchema_parse toy (signup_body ''a@x.com'' ''consumer'') = Inr input"
    using signup_role_farmer_or_consumer[OF f(1) toy_isEmail f(2) p f(3) n] f(4)
    unfolding signup_body_def by blast
  have r: "js ''producer'' \<noteq> js ''farmer''" "js ''producer'' \<noteq> js ''consumer''"
    by (simp_all add: js_def)
  have 2: "sign_up toy (js ''k'') (Some (signup_body ''a@x.com'' ''producer'')) id world0
             = (Json (InvalidInput (js ''Invalid input'') [[js ''role'']]) 400, world0)"
    using signup_role_farmer_or_consumer[OF g(1) toy_isEmail g(2) p g(3) n,
            where s = "js ''k''" and others = id and w = world0] g(4) r
    unfolding signup_body_def by simp
  show ?thesis using 1 2 by blast
qed

text \<open>
  The roles \<open>producer\<close> and \<open>buyer\<close> are rejected, and \<open>farmer\<close> is accepted.
\<close>

theorem signup_role_producer_counterexample:
  "signupSchema_parse toy (signup_body ''a@x.com'' ''producer'') = Inl (ZodError [[js ''role'']]) \<and>
   signupSchema_parse toy (signup_body ''a@x.com'' ''buyer'') = Inl (ZodError [[js ''role'']]) \<and>
   signupSchema_parse toy (signup_body ''a@x.com'' ''farmer'') = Inr (signup_input ''a@x.com'' ''farmer'')"
  by (simp add: signupSchema_parse_def signup_body_def signup_input_def string_field_def js_def toy_def)

subsection \<open>C4: a unique-constraint violation at the insert\<close>

text \<open>
  C4, on the code. When the lookup of \<open>signup\<close> finds no row, and another request inserts a
  row with the same email before the insert, \<open>createUser\<close> throws Prisma's \<open>P2002\<close>;
  \<open>signup\<close> throws it on, its message is not \<open>User already exists\<close>, and the handler
  answers 500 with \<open>An unknown error occurred\<close>, not 409.
\<close>

theorem unique_violation_is_unknown_error:
  assumes b: "signupSchema_parse P body = Inr input"
    and l: "getUserByEmail (si_email input) w = None"
    and k: "getPasswordKey P (si_password input) = Inr key"
    and d: "deriveBits P key (fst (getRandomValues SALT_LENGTH (others w))) ITERATIONS
              (HASH_LENGTH * 8) = Inr dk"
    and u: "u \<in> set (users (others w))" "user_email u = si_email input"
  shows "fst (signup P s input others w) = Inl P2002 \<and>
         fst (sign_up P s (Some body) others w) =
           Json (ErrorMessage (js ''An unknown error occurred'')) 500"
proof -
  obtain h where h: "hashPassword P (si_password input) (others w)
                       = (Inr h, snd (getRandomValues SALT_LENGTH (others w)))"
    using hashPassword_returns[OF k d] by blast
  let ?w1 = "snd (getRandomValues SALT_LENGTH (others w))"
  let ?d = "\<lparr>cu_email = si_email input, cu_passwordHash = h, cu_name = si_name input,
             cu_role = si_role input, cu_profileCompleted = Some False\<rparr>"
  have "users ?w1 = users (others w)" by (simp add: getRandomValues_def)
  then have "u \<in> set (users ?w1)" using u(1) by simp
  then have c: "fst (createUser ?d ?w1) = Inl P2002"
    using u(2) by (intro createUser_taken) auto
  then obtain w2 where c': "createUser ?d ?w1 = (Inl P2002, w2)"
    by (cases "createUser ?d ?w1") simp
  have 1: "signup P s input others w = (Inl P2002, w2)"
    using l h c' by (simp add: signup_def)
  have m: "\<not> hasMessage P2002 (js ''User already exists'')"
    by (simp add: P2002_def js_def)
  have "sign_up_try P s (Some body) others w = (Inl P2002, w2)"
    using b 1 m by (simp add: sign_up_try_def)
  then have 2: "sign_up P s (Some body) others w =
             (Json (ErrorMessage (js ''An unknown error occurred'')) 500, w2)"
    by (simp add: sign_up_def P2002_def)
  show ?thesis using 1 2 by simp
qed

theorem unique_violation_is_unknown_error_witness:
  "fst (signup toy (js ''k'') (signup_input ''a@x.com'' ''farmer'') concurrent_signup world0)
     = Inl P2002 \<and>
   fst (sign_up toy (js ''k'') (Some (signup_body ''a@x.com'' ''farmer'')) concurrent_signup world0)
     = Json (ErrorMessage (js ''An unknown error occurred'')) 500"
proof -
  let ?row = "alice\<lparr>user_created_at := 999, user_updated_at := 1000\<rparr>"
  have u: "?row \<in> set (users (concurrent_signup world0))"
    by (simp add: concurrent_row)
  have e: "user_email ?row = si_email (signup_input ''a@x.com'' ''farmer'')"
    by (simp add: alice_def signup_input_def)
  show ?thesis
    by (rule unique_violation_is_unknown_error
               [where others = concurrent_signup and w = world0,
                OF signup_input_parse world0_lookup toy_key toy_bits u e])
qed

subsection \<open>C5: the two failures of login\<close>

text \<open>
  C5. In one world, a login with an email that is not in the table and a login with an email
  that is in the table and a password that \<open>comparePassword\<close> refuses throw the same error,
  \<open>Invalid email or password\<close>, and leave the world as it was; the handler gives both the
  same response, 401 with that message.
\<close>

theorem login_failures_identical:
  assumes "getUserByEmail (li_email a) w = None"
    and "getUserByEmail (li_email b) w = Some u"
    and "\<not> comparePassword P (li_password b) (user_password_hash u)"
  shows "login P s a w = (Inl (Error (js ''Invalid email or password'')), w) \<and>
         login P s b w = (Inl (Error (js ''Invalid email or password'')), w) \<and>
         (loginSchema_parse P ra = Inr a \<and> loginSchema_parse P rb = Inr b \<longrightarrow>
            log_in P s (Some ra) w = (Json (ErrorMessage (js ''Invalid email or password'')) 401, w) \<and>
            log_in P s (Some rb) w = log_in P s (Some ra) w)"
  using assms by (simp add: login_def log_in_def log_in_try_def)

theorem login_failures_identical_witness:
  "login toy (js ''k'') \<lparr>li_email = js ''b@x.com'', li_password = js ''secret123''\<rparr> world1
     = (Inl (Error (js ''Invalid email or password'')), world1) \<and>
   login toy (js ''k'') \<lparr>li_email = js ''a@x.com'', li_password = js ''wrongpass''\<rparr> world1
     = (Inl (Error (js ''Invalid email or password'')), world1)"
proof -
  have w: "\<not> comparePassword toy (js ''wrongpass'') (user_password_hash alice)"
    using compare_wrong by (simp add: alice_def)
  show ?thesis
    using login_failures_identical
            [where a = "\<lparr>li_email = js ''b@x.com'', li_password = js ''secret123''\<rparr>"
               and b = "\<lparr>li_email = js ''a@x.com'', li_password = js ''wrongpass''\<rparr>"
               and w = world1 and u = alice and P = toy and s = "js ''k''"]
          world1_lookup w
    by simp
qed

subsection \<open>C6: malformed stored hashes\<close>

text \<open>
  C6. \<open>comparePassword\<close> returns a boolean for every password and every stored string, and
  each exception inside its \<open>try\<close> block makes it false: when \<open>atob\<close> throws on the stored
  string, when the platform rejects the import of the key, and when it rejects the
  derivation. It is false as well when the stored string decodes to a number of bytes other
  than \<open>SALT_LENGTH + HASH_LENGTH\<close> (the derived key has \<open>HASH_LENGTH\<close> bytes). A login on a
  row whose hash does not decode fails with the error of a wrong password.
\<close>

theorem comparePassword_false_on_malformed:
  "(atob storedHash = Inl e \<longrightarrow> \<not> comparePassword P password storedHash) \<and>
   (getPasswordKey P password = Inl e \<longrightarrow> \<not> comparePassword P password storedHash) \<and>
   (atob storedHash = Inr bin \<and> getPasswordKey P password = Inr key \<and>
    deriveBits P key (take SALT_LENGTH (Uint8Array_from bin)) ITERATIONS (HASH_LENGTH * 8) = Inl e
    \<longrightarrow> \<not> comparePassword P password storedHash) \<and>
   (atob storedHash = Inr bin \<and> getPasswordKey P password = Inr key \<and>
    deriveBits P key (take SALT_LENGTH (Uint8Array_from bin)) ITERATIONS (HASH_LENGTH * 8) = Inr dk \<and>
    length dk = HASH_LENGTH \<and> length bin \<noteq> SALT_LENGTH + HASH_LENGTH
    \<longrightarrow> \<not> comparePassword P password storedHash) \<and>
   (getUserByEmail (li_email i) w = Some u \<and> atob (user_password_hash u) = Inl e
    \<longrightarrow> login P s i w = (Inl (Error (js ''Invalid email or password'')), w))"
proof (intro conjI impI)
  show "\<not> comparePassword P password storedHash" if "atob storedHash = Inl e"
    using that by (simp add: comparePassword_def)
  show "\<not> comparePassword P password storedHash" if "getPasswordKey P password = Inl e"
    using that by (simp add: comparePassword_def split: sum.split)
  show "\<not> comparePassword P password storedHash"
    if "atob storedHash = Inr bin \<and> getPasswordKey P password = Inr key \<and>
        deriveBits P key (take SALT_LENGTH (Uint8Array_from bin)) ITERATIONS (HASH_LENGTH * 8) = Inl e"
    using that by (simp add: comparePassword_def)
  show "\<not> comparePassword P password storedHash"
    if "atob storedHash = Inr bin \<and> getPasswordKey P password = Inr key \<and>
        deriveBits P key (take SALT_LENGTH (Uint8Array_from bin)) ITERATIONS (HASH_LENGTH * 8) = Inr dk \<and>
        length dk = HASH_LENGTH \<and> length bin \<noteq> SALT_LENGTH + HASH_LENGTH"
  proof -
    have "length (drop SALT_LENGTH (Uint8Array_from bin)) \<noteq> length dk"
      using that by (auto simp: Uint8Array_from_def HASH_LENGTH_def)
    then show ?thesis using that by (simp add: comparePassword_def compareKeys_def)
  qed
  show "login P s i w = (Inl (Error (js ''Invalid email or password'')), w)"
    if "getUserByEmail (li_email i) w = Some u \<and> atob (user_password_hash u) = Inl e"
    using that by (simp add: login_def comparePassword_def)
qed

theorem comparePassword_false_on_malformed_witness:
  "\<not> comparePassword toy (js ''secret123'') (js ''!'') \<and>
   \<not> comparePassword toy (js ''secret123'') (js ''QUJD'') \<and>
   \<not> comparePassword (toy\<lparr>importKey := \<lambda>k. Inl (DOMException (js ''DataError''))\<rparr>)
        (js ''secret123'') stored_secret123 \<and>
   \<not> comparePassword (toy\<lparr>deriveBits := \<lambda>k s i n. Inl (DOMException (js ''OperationError''))\<rparr>)
        (js ''secret123'') stored_secret123 \<and>
   login toy (js ''k'') \<lparr>li_email = js ''a@x.com'', li_password = js ''secret123''\<rparr> world3
     = (Inl (Error (js ''Invalid email or password'')), world3)"
proof -
  let ?nokey = "toy\<lparr>importKey := \<lambda>k. Inl (DOMException (js ''DataError''))\<rparr>"
  let ?nobits = "toy\<lparr>deriveBits := \<lambda>k s i n. Inl (DOMException (js ''OperationError''))\<rparr>"
  let ?i = "\<lparr>li_email = js ''a@x.com'', li_password = js ''secret123''\<rparr>"
  have 1: "\<not> comparePassword toy (js ''secret123'') (js ''!'')"
    using comparePassword_false_on_malformed
            [where storedHash = "js ''!''" and e = "DOMException InvalidCharacterError"
               and P = toy and password = "js ''secret123''"]
          atob_bad by blast
  have b: "deriveBits toy (map ucast (js ''secret123''))
             (take SALT_LENGTH (Uint8Array_from (js ''ABC''))) ITERATIONS (HASH_LENGTH * 8)
           = Inr (replicate 32 31)"
    unfolding toy_bits by (simp add: js_def SALT_LENGTH_def Uint8Array_from_def)
  have 2: "\<not> comparePassword toy (js ''secret123'') (js ''QUJD'')"
    using comparePassword_false_on_malformed
            [where storedHash = "js ''QUJD''" and bin = "js ''ABC''" and P = toy
               and password = "js ''secret123''" and key = "map ucast (js ''secret123'')"
               and dk = "replicate 32 31"]
          atob_ABC toy_key b
    by (simp add: HASH_LENGTH_def SALT_LENGTH_def js_def)
  have 3: "\<not> comparePassword ?nokey (js ''secret123'') stored_secret123"
    using comparePassword_false_on_malformed
            [where P = ?nokey and password = "js ''secret123''" and e = "DOMException (js ''DataError'')"
               and storedHash = stored_secret123]
    by (simp add: getPasswordKey_def)
  have 4: "\<not> comparePassword ?nobits (js ''secret123'') stored_secret123"
    using comparePassword_false_on_malformed
            [where P = ?nobits and password = "js ''secret123''"
               and e = "DOMException (js ''OperationError'')"
               and storedHash = stored_secret123
               and bin = "map of_nat ([0..<16] @ replicate 32 44)"
               and key = "map ucast (js ''secret123'')"]
          atob_stored
    by (simp add: getPasswordKey_def toy_def)
  have l: "getUserByEmail (li_email ?i) world3 = Some corrupt"
    by (simp add: getUserByEmail_def world3_def world0_def corrupt_def alice_def)
  have a: "atob (user_password_hash corrupt) = Inl (DOMException InvalidCharacterError)"
    using atob_bad by (simp add: corrupt_def)
  have 5: "login toy (js ''k'') ?i world3 = (Inl (Error (js ''Invalid email or password'')), world3)"
    using comparePassword_false_on_malformed
            [where i = ?i and w = world3 and u = corrupt
               and e = "DOMException InvalidCharacterError" and P = toy and s = "js ''k''"]
          l a by blast
  show ?thesis using 1 2 3 4 5 by blast
qed

subsection \<open>C7: signup with an email that is taken\<close>

text \<open>
  C7. When the table has a row with the email of the input, \<open>signup\<close> throws
  \<open>User already exists\<close> and returns the world as it was: no row is inserted, the counter,
  the clock and the random source are untouched (no salt is drawn, so no hash is computed);
  the handler answers 409.
\<close>

theorem signup_existing_email:
  assumes "u \<in> set (users w)" and "user_email u = si_email input"
  shows "signup P s input others w = (Inl (Error (js ''User already exists'')), w) \<and>
         (signupSchema_parse P body = Inr input \<longrightarrow>
            sign_up P s (Some body) others w = (Json (ErrorMessage (js ''User already exists'')) 409, w))"
proof -
  have "signup P s input others w = (Inl (Error (js ''User already exists'')), w)"
    using assms by (rule signup_duplicate)
  then show ?thesis by (simp add: sign_up_def sign_up_try_def)
qed

theorem signup_existing_email_witness:
  "signup toy (js ''k'') (signup_input ''a@x.com'' ''farmer'') id world1
     = (Inl (Error (js ''User already exists'')), world1) \<and>
   sign_up toy (js ''k'') (Some (signup_body ''a@x.com'' ''farmer'')) id world1
     = (Json (ErrorMessage (js ''User already exists'')) 409, world1)"
proof -
  have u: "alice \<in> set (users world1)" by (simp add: world1_def)
  have e: "user_email alice = si_email (signup_input ''a@x.com'' ''farmer'')"
    by (simp add: alice_def signup_input_def)
  show ?thesis
    using signup_existing_email
            [OF u e, where body = "signup_body ''a@x.com'' ''farmer''" and P = toy]
          signup_input_parse
    by blast
qed

subsection \<open>C8: the email as a key\<close>




subsection \<open>C9: the time to live\<close>

text \<open>
  C9, on the code. \<open>expiresIn\<close> is 86400, and the token is signed over the payload whose
  \<open>iat\<close> is the first reading of the clock in seconds and whose \<open>exp\<close> is the second reading
  in seconds plus 86400. So \<open>exp\<close> is \<open>iat + 86400\<close> exactly when the two readings fall in the
  same second: with the readings 999 ms and 1000 ms, \<open>iat\<close> is 0 and \<open>exp\<close> is 86401.
\<close>

theorem token_expiry_reads_clock_twice:
  "expiresIn (fst (generateAuthResponse P s u w)) = 86400 \<and>
   accessToken (fst (generateAuthResponse P s u w)) =
     jwtSign P (tokenPayload u (clock w 0) (clock w 1)) s \<and>
   jwt_iat (tokenPayload u ta tb) = Some (ta div 1000) \<and>
   jwt_exp (tokenPayload u ta tb) = Some (tb div 1000 + 86400) \<and>
   (jwt_exp (tokenPayload u ta tb) = map_option (\<lambda>i. i + 86400) (jwt_iat (tokenPayload u ta tb))
      \<longleftrightarrow> ta div 1000 = tb div 1000) \<and>
   jwt_iat (tokenPayload u 999 1000) = Some 0 \<and>
   jwt_exp (tokenPayload u 999 1000) = Some 86401 \<and>
   accessToken (fst (generateAuthResponse P s u world0)) = jwtSign P (tokenPayload u 999 1000) s"
  by (auto simp add: generateAuthResponse_def generateToken_def Date_now_def tokenPayload_def
        world0_def)

subsection \<open>C10: a row without a name\<close>




end
